theory Spec2Isabelle
  imports Complex_Main
begin

section \<open>EchoStream: the shared playback state and its handlers\<close>

text \<open>
  The server (\<^verbatim>\<open>server.py\<close>) keeps one playback state in a Redis hash
  (\<^verbatim>\<open>STATE_KEY\<close>), the connected sessions in a Redis set (\<^verbatim>\<open>USER_SET_KEY\<close>) and
  publishes its notifications on one Redis channel (\<^verbatim>\<open>SYNC_CHANNEL\<close>). The model
  threads that store through every handler as an explicit value.

  Conventions of the model:
  \<^item> Python floats are idealised as \<^typ>\<open>real\<close> (finite values only); no statement
    below depends on rounding, and the concrete inputs used are small numbers on which
    float arithmetic is exact.
  \<^item> A decimal string of the hash (\<^verbatim>\<open>str(x)\<close>, read back with \<^verbatim>\<open>float\<close>) is
    represented by the number it denotes, so \<^verbatim>\<open>"0.0"\<close> is \<open>0\<close>.
  \<^item> \<^verbatim>\<open>time.time()\<close> is the argument \<open>now\<close> of the handler that reads the clock.
  \<^item> \<^verbatim>\<open>request.sid\<close> is the argument \<open>sid\<close> of a Socket.IO handler.
  \<^item> Every Redis command raises \<^verbatim>\<open>RedisError\<close> while the store is unreachable
    (field \<open>up\<close> false); reachability does not change while one handler runs.
  \<^item> \<^verbatim>\<open>print\<close> is diagnostic only and is not modelled.
\<close>

subsection \<open>Data\<close>

text \<open>The hash at \<^verbatim>\<open>STATE_KEY\<close>: a field is \<open>None\<close> when the hash does not hold it.\<close>

record state_hash =
  video_file_url :: "string option"
  is_playing :: "string option"
  current_time :: "real option"
  last_update_timestamp :: "real option"
  controller_sid :: "string option"

text \<open>The hash of a key that does not exist (after \<^verbatim>\<open>r.delete(STATE_KEY)\<close>).\<close>

definition no_hash :: state_hash where
  "no_hash = \<lparr>video_file_url = None, is_playing = None, current_time = None,
     last_update_timestamp = None, controller_sid = None\<rparr>"

text \<open>
  The dictionary that \<^verbatim>\<open>get_current_state\<close> returns: the raw hash, with
  \<^verbatim>\<open>current_time\<close> replaced by a float, \<^verbatim>\<open>is_playing\<close> by a bool and the two string
  fields defaulted. A key the dictionary lacks is \<open>None\<close>; \<^verbatim>\<open>{}\<close> lacks them all.
\<close>

record snapshot =
  snap_video_file_url :: "string option"
  snap_is_playing :: "bool option"
  snap_current_time :: "real option"
  snap_last_update_timestamp :: "real option"
  snap_controller_sid :: "string option"

definition empty_dict :: snapshot where
  "empty_dict = \<lparr>snap_video_file_url = None, snap_is_playing = None, snap_current_time = None,
     snap_last_update_timestamp = None, snap_controller_sid = None\<rparr>"

text \<open>
  A message on \<^verbatim>\<open>SYNC_CHANNEL\<close> is \<^verbatim>\<open>{"event": name, "data": {...}}\<close>: the name and
  the entries of the data object, in the order the source writes them.
\<close>

datatype jval = JStr string | JNum real

type_synonym event = "string \<times> (string \<times> jval) list"

text \<open>The \<^verbatim>\<open>data\<close> argument of a playback handler: a JSON object with numeric values.\<close>

type_synonym payload = "string \<rightharpoonup> real"

datatype py_error = RedisError

text \<open>
  The store and what has left the process: the hash, the set of sessions (a list without
  order significance), the messages published on the channel (oldest first) and the
  \<^verbatim>\<open>sync_state\<close> messages emitted directly to one session (oldest first).
\<close>

record world =
  up :: bool
  store :: state_hash
  users :: "string list"
  channel :: "event list"
  emitted :: "(string \<times> snapshot) list"

subsection \<open>Redis commands\<close>

definition hgetall :: "world \<Rightarrow> py_error + state_hash" where
  "hgetall w = (if up w then Inr (store w) else Inl RedisError)"

definition hget_controller_sid :: "world \<Rightarrow> py_error + string option" where
  "hget_controller_sid w = (if up w then Inr (controller_sid (store w)) else Inl RedisError)"

text \<open>
  \<^verbatim>\<open>r.hset\<close> and a pipeline of \<^verbatim>\<open>hset\<close>s run by \<^verbatim>\<open>pipe.execute()\<close>: the
  update \<open>f\<close> of the hash is applied as one transaction.
\<close>

definition execute :: "world \<Rightarrow> (state_hash \<Rightarrow> state_hash) \<Rightarrow> py_error + world" where
  "execute w f = (if up w then Inr (w\<lparr>store := f (store w)\<rparr>) else Inl RedisError)"

definition publish :: "world \<Rightarrow> event \<Rightarrow> py_error + world" where
  "publish w ev = (if up w then Inr (w\<lparr>channel := channel w @ [ev]\<rparr>) else Inl RedisError)"

definition sadd :: "world \<Rightarrow> string \<Rightarrow> py_error + world" where
  "sadd w sid = (if up w then Inr (w\<lparr>users := List.insert sid (users w)\<rparr>) else Inl RedisError)"

definition srem :: "world \<Rightarrow> string \<Rightarrow> py_error + world" where
  "srem w sid = (if up w then Inr (w\<lparr>users := removeAll sid (users w)\<rparr>) else Inl RedisError)"

text \<open>
  \<^verbatim>\<open>r.srandmember\<close>: \<open>None\<close> on the empty set, otherwise the member that the random
  number \<open>rnd\<close> selects; every member is selected by some \<open>rnd\<close>.
\<close>

definition srandmember :: "world \<Rightarrow> nat \<Rightarrow> py_error + string option" where
  "srandmember w rnd =
     (if up w
      then Inr (if users w = [] then None else Some (users w ! (rnd mod length (users w))))
      else Inl RedisError)"

subsection \<open>\<^verbatim>\<open>redis_config.py\<close>\<close>

definition default_hash :: state_hash where
  "default_hash = \<lparr>video_file_url = Some '''', is_playing = Some ''0'', current_time = Some 0,
     last_update_timestamp = Some 0, controller_sid = Some ''''\<rparr>"

definition initialize_redis_state :: "world \<Rightarrow> world" where
  "initialize_redis_state w =
     (if up w then w\<lparr>store := default_hash, users := []\<rparr> else w)"

subsection \<open>Utility functions of \<^verbatim>\<open>server.py\<close>\<close>

definition get_or :: "'a option \<Rightarrow> 'a \<Rightarrow> 'a" where
  "get_or v d = (case v of None \<Rightarrow> d | Some x \<Rightarrow> x)"

definition get_current_state :: "world \<Rightarrow> real \<Rightarrow> snapshot" where
  "get_current_state w now =
     (case hgetall w of
        Inl RedisError \<Rightarrow> empty_dict
      | Inr state \<Rightarrow>
          (let playing = (is_playing state = Some ''1'');
               base_time = get_or (current_time state) 0;
               last_update = get_or (last_update_timestamp state) 0;
               authoritative_time =
                 (if playing then base_time + (now - last_update) else base_time)
           in \<lparr>snap_video_file_url = Some (get_or (video_file_url state) ''''),
               snap_is_playing = Some playing,
               snap_current_time = Some authoritative_time,
               snap_last_update_timestamp = last_update_timestamp state,
               snap_controller_sid = Some (get_or (controller_sid state) '''')\<rparr>))"

definition is_controller :: "world \<Rightarrow> string \<Rightarrow> bool" where
  "is_controller w sid =
     (case hget_controller_sid w of
        Inl RedisError \<Rightarrow> False
      | Inr c \<Rightarrow> c = Some sid)"

text \<open>Python truthiness of \<^verbatim>\<open>None\<close> or a string.\<close>

definition truthy :: "string option \<Rightarrow> bool" where
  "truthy v = (case v of None \<Rightarrow> False | Some s \<Rightarrow> s \<noteq> [])"

text \<open>
  \<^verbatim>\<open>allowed_file\<close>: \<^verbatim>\<open>rsplit('.', 1)[1]\<close> is the text after the last dot, and
  \<^verbatim>\<open>lower\<close> acts on the letters A to Z (no other character lowers to a letter of the
  three extensions).
\<close>

definition lower_char :: "char \<Rightarrow> char" where
  "lower_char c =
     (case map_of (zip ''ABCDEFGHIJKLMNOPQRSTUVWXYZ'' ''abcdefghijklmnopqrstuvwxyz'') c of
        None \<Rightarrow> c
      | Some d \<Rightarrow> d)"

definition after_last_dot :: "string \<Rightarrow> string" where
  "after_last_dot filename = rev (takeWhile (\<lambda>c. c \<noteq> CHR ''.'') (rev filename))"

definition ALLOWED_EXTENSIONS :: "string list" where
  "ALLOWED_EXTENSIONS = [''mp4'', ''webm'', ''ogg'']"

definition allowed_file :: "string \<Rightarrow> bool" where
  "allowed_file filename =
     (CHR ''.'' \<in> set filename \<and>
      map lower_char (after_last_dot filename) \<in> set ALLOWED_EXTENSIONS)"

text \<open>
  The \<^verbatim>\<open>hset\<close> and the \<^verbatim>\<open>publish\<close> that both branches of
  \<^verbatim>\<open>elect_new_controller\<close> perform, for the value \<open>c\<close> the branch writes.
\<close>

definition write_controller :: "world \<Rightarrow> string \<Rightarrow> py_error + world" where
  "write_controller w c =
     (case execute w (\<lambda>h. h\<lparr>controller_sid := Some c\<rparr>) of
        Inl e \<Rightarrow> Inl e
      | Inr w1 \<Rightarrow> publish w1 (''controller_change'', [(''controller_sid'', JStr c)]))"

text \<open>
  \<^verbatim>\<open>elect_new_controller\<close> returns the member drawn (\<open>None\<close> on the empty set and on
  a Redis error); the model returns the store with it.
\<close>

definition elect_new_controller :: "world \<Rightarrow> nat \<Rightarrow> world \<times> string option" where
  "elect_new_controller w rnd =
     (case srandmember w rnd of
        Inl RedisError \<Rightarrow> (w, None)
      | Inr new_controller_sid \<Rightarrow>
          (case (if truthy new_controller_sid
                 then write_controller w (get_or new_controller_sid [])
                 else write_controller w []) of
             Inl RedisError \<Rightarrow> (w, None)
           | Inr w' \<Rightarrow> (w', new_controller_sid)))"

subsection \<open>The upload route\<close>

text \<open>
  What the route reads from the request: the filename of the part \<^verbatim>\<open>file\<close> (\<open>None\<close>
  when the request has no such part) and the form field \<^verbatim>\<open>sid\<close>. Saving the file is
  the storage collaborator's business and is taken to succeed. The parameter \<open>url_of\<close>
  stands for Flask's \<^verbatim>\<open>url_for('static', filename='videos/' + secure_filename(name))\<close>.
\<close>

record upload_request =
  file_part :: "string option"
  form_sid :: "string option"

datatype response = Failure nat string | NoContent

definition upload_video ::
  "(string \<Rightarrow> string) \<Rightarrow> world \<Rightarrow> upload_request \<Rightarrow> real \<Rightarrow> world \<times> response" where
  "upload_video url_of w req now =
     (case file_part req of
        None \<Rightarrow> (w, Failure 400 ''No file part'')
      | Some filename \<Rightarrow>
          if filename = [] then (w, Failure 400 ''No selected file'')
          else if allowed_file filename then
            (let video_url = url_of filename; uploader_sid = get_or (form_sid req) [] in
             if \<not> truthy (form_sid req) then (w, Failure 400 ''No client SID'')
             else
               (case execute w (\<lambda>h. h\<lparr>video_file_url := Some video_url,
                                       is_playing := Some ''0'',
                                       current_time := Some 0,
                                       last_update_timestamp := Some now,
                                       controller_sid := Some uploader_sid\<rparr>) of
                  Inl RedisError \<Rightarrow> (w, Failure 500 ''Server error'')
                | Inr w1 \<Rightarrow>
                    (case publish w1 (''video_loaded'',
                            [(''url'', JStr video_url), (''sid'', JStr uploader_sid)]) of
                       Inl RedisError \<Rightarrow> (w1, Failure 500 ''Server error'')
                     | Inr w2 \<Rightarrow>
                         (case publish w2 (''controller_change'',
                                 [(''controller_sid'', JStr uploader_sid)]) of
                            Inl RedisError \<Rightarrow> (w2, Failure 500 ''Server error'')
                          | Inr w3 \<Rightarrow> (w3, NoContent)))))
          else (w, Failure 400 ''File type not allowed''))"

subsection \<open>Socket.IO handlers\<close>

text \<open>\<^verbatim>\<open>emit('sync_state', get_current_state(), to=sid)\<close>.\<close>

definition emit_sync_state :: "world \<Rightarrow> string \<Rightarrow> real \<Rightarrow> world" where
  "emit_sync_state w sid now = w\<lparr>emitted := emitted w @ [(sid, get_current_state w now)]\<rparr>"

definition handle_connect :: "world \<Rightarrow> string \<Rightarrow> real \<Rightarrow> world" where
  "handle_connect w sid now =
     (case sadd w sid of
        Inl RedisError \<Rightarrow> w
      | Inr w1 \<Rightarrow> emit_sync_state w1 sid now)"

definition handle_disconnect :: "world \<Rightarrow> string \<Rightarrow> nat \<Rightarrow> world" where
  "handle_disconnect w sid rnd =
     (case srem w sid of
        Inl RedisError \<Rightarrow> w
      | Inr w1 \<Rightarrow> if is_controller w1 sid then fst (elect_new_controller w1 rnd) else w1)"

definition handle_request_sync :: "world \<Rightarrow> string \<Rightarrow> real \<Rightarrow> world" where
  "handle_request_sync w sid now = emit_sync_state w sid now"

text \<open>
  The playback handlers. Each one is the guard \<^verbatim>\<open>if not is_controller(sid): return\<close>
  followed by the rest of the body (\<open>play_write\<close>, \<open>pause_write\<close>, \<open>seek_write\<close>):
  the payload is read, the pipeline is executed and the event is published. \<open>Inl\<close> is
  an exception leaving the handler, \<open>Inr\<close> a normal return with the resulting store.
\<close>

definition play_write :: "world \<Rightarrow> string \<Rightarrow> payload \<Rightarrow> real \<Rightarrow> py_error + world" where
  "play_write w sid data now =
     (let t = get_or (data ''time'') 0 in
      case execute w (\<lambda>h. h\<lparr>is_playing := Some ''1'',
                              current_time := Some t,
                              last_update_timestamp := Some now\<rparr>) of
        Inl e \<Rightarrow> Inl e
      | Inr w1 \<Rightarrow> publish w1 (''sync_play'', [(''time'', JNum t), (''sid'', JStr sid)]))"

definition handle_play :: "world \<Rightarrow> string \<Rightarrow> payload \<Rightarrow> real \<Rightarrow> py_error + world" where
  "handle_play w sid data now =
     (if \<not> is_controller w sid then Inr w else play_write w sid data now)"

definition pause_write :: "world \<Rightarrow> string \<Rightarrow> payload \<Rightarrow> real \<Rightarrow> py_error + world" where
  "pause_write w sid data now =
     (let t = get_or (data ''time'') 0 in
      case execute w (\<lambda>h. h\<lparr>is_playing := Some ''0'',
                              current_time := Some t,
                              last_update_timestamp := Some now\<rparr>) of
        Inl e \<Rightarrow> Inl e
      | Inr w1 \<Rightarrow> publish w1 (''sync_pause'', [(''time'', JNum t), (''sid'', JStr sid)]))"

definition handle_pause :: "world \<Rightarrow> string \<Rightarrow> payload \<Rightarrow> real \<Rightarrow> py_error + world" where
  "handle_pause w sid data now =
     (if \<not> is_controller w sid then Inr w else pause_write w sid data now)"

definition seek_write :: "world \<Rightarrow> string \<Rightarrow> payload \<Rightarrow> real \<Rightarrow> py_error + world" where
  "seek_write w sid data now =
     (let t = get_or (data ''time'') 0 in
      case execute w (\<lambda>h. h\<lparr>current_time := Some t,
                              last_update_timestamp := Some now\<rparr>) of
        Inl e \<Rightarrow> Inl e
      | Inr w1 \<Rightarrow> publish w1 (''sync_seek'', [(''time'', JNum t), (''sid'', JStr sid)]))"

definition handle_seek :: "world \<Rightarrow> string \<Rightarrow> payload \<Rightarrow> real \<Rightarrow> py_error + world" where
  "handle_seek w sid data now =
     (if \<not> is_controller w sid then Inr w else seek_write w sid data now)"

subsection \<open>Derived notions\<close>

text \<open>
  The stored position and write instant as \<^verbatim>\<open>get_current_state\<close> reads them
  (\<^verbatim>\<open>float(state.get(..., 0.0))\<close>).
\<close>

definition base_time :: "state_hash \<Rightarrow> real" where
  "base_time h = get_or (current_time h) 0"

definition last_update :: "state_hash \<Rightarrow> real" where
  "last_update h = get_or (last_update_timestamp h) 0"

definition playing :: "state_hash \<Rightarrow> bool" where
  "playing h = (is_playing h = Some ''1'')"

text \<open>
  The requests the process serves, each with the clock value or random draw its handler
  reads. An exception that leaves a playback handler is dropped by the framework; the
  handler has written nothing before it.
\<close>

datatype request =
    Upload upload_request real
  | Connect string real
  | Disconnect string nat
  | RequestSync string real
  | Play string payload real
  | Pause string payload real
  | Seek string payload real

definition returned :: "world \<Rightarrow> py_error + world \<Rightarrow> world" where
  "returned w res = (case res of Inl e \<Rightarrow> w | Inr w' \<Rightarrow> w')"

fun serve :: "(string \<Rightarrow> string) \<Rightarrow> world \<Rightarrow> request \<Rightarrow> world" where
  "serve url_of w (Upload req now) = fst (upload_video url_of w req now)"
| "serve url_of w (Connect sid now) = handle_connect w sid now"
| "serve url_of w (Disconnect sid rnd) = handle_disconnect w sid rnd"
| "serve url_of w (RequestSync sid now) = handle_request_sync w sid now"
| "serve url_of w (Play sid data now) = returned w (handle_play w sid data now)"
| "serve url_of w (Pause sid data now) = returned w (handle_pause w sid data now)"
| "serve url_of w (Seek sid data now) = returned w (handle_seek w sid data now)"

definition run :: "(string \<Rightarrow> string) \<Rightarrow> world \<Rightarrow> request list \<Rightarrow> world" where
  "run url_of w reqs = foldl (serve url_of) w reqs"

text \<open>The time a playback request carries is not negative (an absent time counts as 0).\<close>

fun time_not_negative :: "request \<Rightarrow> bool" where
  "time_not_negative (Play sid data now) = (0 \<le> get_or (data ''time'') 0)"
| "time_not_negative (Pause sid data now) = (0 \<le> get_or (data ''time'') 0)"
| "time_not_negative (Seek sid data now) = (0 \<le> get_or (data ''time'') 0)"
| "time_not_negative req = True"

text \<open>
  A playback handler makes two separate round trips to Redis: the \<^verbatim>\<open>HGET\<close> inside
  \<^verbatim>\<open>is_controller\<close>, then the \<^verbatim>\<open>MULTI\<close>/\<^verbatim>\<open>EXEC\<close> of its pipeline. Redis serves
  its other connections in between (other green threads of this process, which run
  whenever a handler waits for a reply, and other processes on the same store).
  \<open>interleaved other w sid write\<close> is the handler with issuer \<open>sid\<close> and remaining body
  \<open>write\<close>, started on \<open>w\<close>, where the commands of other clients that Redis serves
  between the two round trips have the combined effect \<open>other\<close>.
\<close>

definition interleaved ::
  "(world \<Rightarrow> world) \<Rightarrow> world \<Rightarrow> string \<Rightarrow> (world \<Rightarrow> py_error + world) \<Rightarrow> py_error + world" where
  "interleaved other w sid write =
     (if \<not> is_controller w sid then Inr (other w) else write (other w))"

subsection \<open>Example data\<close>

definition static_url :: "string \<Rightarrow> string" where
  "static_url filename = ''/static/videos/'' @ filename"

definition fresh :: world where
  "fresh = \<lparr>up = True, store = default_hash, users = [], channel = [], emitted = []\<rparr>"

text \<open>Three sessions are connected; U1 has uploaded \<^verbatim>\<open>a.mp4\<close> at instant 10.\<close>

definition loaded :: world where
  "loaded = \<lparr>up = True,
     store = \<lparr>video_file_url = Some ''/static/videos/a.mp4'', is_playing = Some ''0'',
       current_time = Some 0, last_update_timestamp = Some 10, controller_sid = Some ''U1''\<rparr>,
     users = [''U1'', ''U2'', ''U3''], channel = [], emitted = []\<rparr>"

section \<open>Basic facts\<close>

lemma is_controller_iff:
  "is_controller w sid \<longleftrightarrow> up w \<and> controller_sid (store w) = Some sid"
  by (simp add: is_controller_def hget_controller_sid_def)

text \<open>On a reachable store the rest of each playback handler is one update.\<close>

lemma play_write_up:
  "up w \<Longrightarrow> play_write w sid data now =
     Inr (w\<lparr>store := (store w)\<lparr>is_playing := Some ''1'',
              current_time := Some (get_or (data ''time'') 0),
              last_update_timestamp := Some now\<rparr>,
            channel := channel w @
              [(''sync_play'', [(''time'', JNum (get_or (data ''time'') 0)),
                                (''sid'', JStr sid)])]\<rparr>)"
  by (simp add: play_write_def execute_def publish_def Let_def)

lemma pause_write_up:
  "up w \<Longrightarrow> pause_write w sid data now =
     Inr (w\<lparr>store := (store w)\<lparr>is_playing := Some ''0'',
              current_time := Some (get_or (data ''time'') 0),
              last_update_timestamp := Some now\<rparr>,
            channel := channel w @
              [(''sync_pause'', [(''time'', JNum (get_or (data ''time'') 0)),
                                 (''sid'', JStr sid)])]\<rparr>)"
  by (simp add: pause_write_def execute_def publish_def Let_def)

lemma seek_write_up:
  "up w \<Longrightarrow> seek_write w sid data now =
     Inr (w\<lparr>store := (store w)\<lparr>current_time := Some (get_or (data ''time'') 0),
              last_update_timestamp := Some now\<rparr>,
            channel := channel w @
              [(''sync_seek'', [(''time'', JNum (get_or (data ''time'') 0)),
                                (''sid'', JStr sid)])]\<rparr>)"
  by (simp add: seek_write_def execute_def publish_def Let_def)

lemma play_write_down: "\<not> up w \<Longrightarrow> play_write w sid data now = Inl RedisError"
  by (simp add: play_write_def execute_def Let_def)

lemma pause_write_down: "\<not> up w \<Longrightarrow> pause_write w sid data now = Inl RedisError"
  by (simp add: pause_write_def execute_def Let_def)

lemma seek_write_down: "\<not> up w \<Longrightarrow> seek_write w sid data now = Inl RedisError"
  by (simp add: seek_write_def execute_def Let_def)

text \<open>
  An election on a reachable store writes one value \<open>c\<close> to \<^verbatim>\<open>controller_sid\<close> and
  publishes it: the empty string on the empty set, a member otherwise.
\<close>

lemma elect_written:
  assumes "up w"
  shows "\<exists>c. fst (elect_new_controller w rnd) =
            w\<lparr>store := (store w)\<lparr>controller_sid := Some c\<rparr>,
              channel := channel w @
                [(''controller_change'', [(''controller_sid'', JStr c)])]\<rparr>
          \<and> (if users w = [] then c = [] else c \<in> set (users w))"
proof (cases "users w = []")
  case True
  with assms show ?thesis
    by (simp add: elect_new_controller_def srandmember_def truthy_def write_controller_def
        execute_def publish_def)
next
  case False
  let ?m = "users w ! (rnd mod length (users w))"
  have m: "?m \<in> set (users w)" using False by simp
  have "fst (elect_new_controller w rnd) =
            w\<lparr>store := (store w)\<lparr>controller_sid := Some ?m\<rparr>,
              channel := channel w @
                [(''controller_change'', [(''controller_sid'', JStr ?m)])]\<rparr>"
    using assms False
    by (simp add: elect_new_controller_def srandmember_def truthy_def write_controller_def
        execute_def publish_def get_or_def)
  with m False show ?thesis by auto
qed

section \<open>Snapshot reads\<close>

text \<open>
  C1, as stated, fails: \<^verbatim>\<open>get_current_state\<close> adds \<^verbatim>\<open>time.time() - last_update\<close>
  without a clamp. With the video playing from position 0 written at instant 10, a read
  at instant 5 reports position -5, not 0, and the reported position is negative.
\<close>

theorem reconciled_position_counterexample:
  "snap_current_time (get_current_state
      (loaded\<lparr>store := (store loaded)\<lparr>is_playing := Some ''1''\<rparr>\<rparr>) 5) = Some (- 5)
   \<and> Some (- 5 :: real) \<noteq> Some (0 + max 0 (5 - 10))
   \<and> (- 5 :: real) < 0"
  by (simp add: get_current_state_def hgetall_def loaded_def get_or_def)

text \<open>
  C1, amended: for every stored playback state and every read instant \<open>now\<close>, the
  position a snapshot read returns is \<open>baseTime\<close> when \<open>isPlaying\<close> is false and
  \<open>baseTime + (now - lastUpdateAt)\<close>, unclamped, when it is true. Whenever
  \<open>now \<ge> lastUpdateAt\<close> this is \<open>baseTime + max 0 (now - lastUpdateAt)\<close>, and then it
  is not negative for a state with \<open>baseTime \<ge> 0\<close>.
\<close>

theorem reconciled_position:
  assumes "up w"
  shows "snap_current_time (get_current_state w now) =
           Some (if playing (store w)
                 then base_time (store w) + (now - last_update (store w))
                 else base_time (store w))
         \<and> (last_update (store w) \<le> now \<longrightarrow>
             snap_current_time (get_current_state w now) =
               Some (if playing (store w)
                     then base_time (store w) + max 0 (now - last_update (store w))
                     else base_time (store w)))
         \<and> (last_update (store w) \<le> now \<and> 0 \<le> base_time (store w) \<longrightarrow>
             (\<exists>p. snap_current_time (get_current_state w now) = Some p \<and> 0 \<le> p))"
  using assms
  by (simp add: get_current_state_def hgetall_def base_time_def last_update_def
      playing_def Let_def)

text \<open>Play at 12.5 written at instant 100, read at instant 103: position 15.5.\<close>

theorem reconciled_position_witness:
  "up (loaded\<lparr>store := (store loaded)\<lparr>is_playing := Some ''1'',
          current_time := Some 12.5, last_update_timestamp := Some 100\<rparr>\<rparr>)
   \<and> (100::real) \<le> 103 \<and> (0::real) \<le> 12.5
   \<and> snap_current_time (get_current_state
        (loaded\<lparr>store := (store loaded)\<lparr>is_playing := Some ''1'',
           current_time := Some 12.5, last_update_timestamp := Some 100\<rparr>\<rparr>) 103) = Some 15.5"
  using reconciled_position [of "loaded\<lparr>store := (store loaded)\<lparr>is_playing := Some ''1'',
      current_time := Some 12.5, last_update_timestamp := Some 100\<rparr>\<rparr>" 103]
  by (simp add: loaded_def base_time_def last_update_def playing_def get_or_def)

text \<open>
  The defaults of a snapshot come from the \<^verbatim>\<open>state.get(..., default)\<close> reads of the
  success path: they appear when the store answers but the hash is missing.
\<close>

lemma snapshot_of_missing_hash:
  "up w \<Longrightarrow> store w = no_hash \<Longrightarrow>
   get_current_state w now =
     \<lparr>snap_video_file_url = Some [], snap_is_playing = Some False,
        snap_current_time = Some 0, snap_last_update_timestamp = None,
        snap_controller_sid = Some []\<rparr>"
  by (simp add: get_current_state_def hgetall_def no_hash_def get_or_def)

text \<open>
  C6, as stated, fails: on a \<^verbatim>\<open>RedisError\<close> the snapshot read returns \<^verbatim>\<open>{}\<close>. The
  dictionary holds no \<^verbatim>\<open>video_file_url\<close>, \<^verbatim>\<open>is_playing\<close>, \<^verbatim>\<open>current_time\<close> or
  \<^verbatim>\<open>controller_sid\<close> at all, so none of them has its default value, and the result
  differs from the snapshot of the store as it is initialized at process start.
\<close>

theorem unavailable_snapshot_counterexample:
  "snap_video_file_url (get_current_state (fresh\<lparr>up := False\<rparr>) 0) \<noteq> Some ''''
   \<and> snap_is_playing (get_current_state (fresh\<lparr>up := False\<rparr>) 0) \<noteq> Some False
   \<and> snap_current_time (get_current_state (fresh\<lparr>up := False\<rparr>) 0) \<noteq> Some 0
   \<and> snap_controller_sid (get_current_state (fresh\<lparr>up := False\<rparr>) 0) \<noteq> Some ''''
   \<and> get_current_state (fresh\<lparr>up := False\<rparr>) 0 \<noteq>
       get_current_state (initialize_redis_state fresh) 0"
  by (simp add: get_current_state_def hgetall_def fresh_def empty_dict_def
      initialize_redis_state_def default_hash_def get_or_def)

text \<open>
  C6, amended: whenever the store is unavailable, a snapshot read does not propagate the
  failure but returns the empty dictionary, which carries none of the playback fields.
\<close>

theorem unavailable_snapshot_is_empty:
  assumes "\<not> up w"
  shows "get_current_state w now = empty_dict"
  using assms by (simp add: get_current_state_def hgetall_def)

theorem unavailable_snapshot_is_empty_witness:
  "\<not> up (loaded\<lparr>up := False\<rparr>) \<and> get_current_state (loaded\<lparr>up := False\<rparr>) 40 = empty_dict"
  using unavailable_snapshot_is_empty [of "loaded\<lparr>up := False\<rparr>" 40] by simp

section \<open>Commands from a session that is not the controller\<close>

text \<open>
  C2: a play, pause or seek command from a session other than the one stored as
  \<^verbatim>\<open>controller_sid\<close> returns normally and leaves everything as it was: every field of
  the playback state, the channel (nothing is published) and the messages emitted to
  sessions (nothing is sent to the issuer).
\<close>

theorem non_controller_command_discarded:
  assumes "controller_sid (store w) \<noteq> Some sid"
  shows "handle_play w sid data now = Inr w
       \<and> handle_pause w sid data now = Inr w
       \<and> handle_seek w sid data now = Inr w"
  using assms
  by (simp add: handle_play_def handle_pause_def handle_seek_def is_controller_def
      hget_controller_sid_def)

text \<open>U2 is not the controller and issues each command with time 5.\<close>

theorem non_controller_command_discarded_witness:
  "controller_sid (store loaded) \<noteq> Some ''U2''
   \<and> handle_play loaded ''U2'' [''time'' \<mapsto> 5] 20 = Inr loaded
   \<and> handle_pause loaded ''U2'' [''time'' \<mapsto> 5] 20 = Inr loaded
   \<and> handle_seek loaded ''U2'' [''time'' \<mapsto> 5] 20 = Inr loaded"
  using non_controller_command_discarded [of loaded "''U2''" "[''time'' \<mapsto> 5]" 20]
  by (simp add: loaded_def)

section \<open>Commands from the controller\<close>

text \<open>
  C8: a seek to \<open>t\<close> issued by the current controller returns normally with
  \<^verbatim>\<open>current_time\<close> = \<open>t\<close> and \<^verbatim>\<open>last_update_timestamp\<close> = \<open>now\<close>, while
  \<^verbatim>\<open>is_playing\<close>, \<^verbatim>\<open>video_file_url\<close> and \<^verbatim>\<open>controller_sid\<close> are as before: a seek
  keeps a playing state playing and a paused state paused.
\<close>

theorem controller_seek_frame:
  assumes "up w" and "controller_sid (store w) = Some sid" and "data ''time'' = Some t"
  shows "\<exists>w'. handle_seek w sid data now = Inr w'
           \<and> current_time (store w') = Some t
           \<and> last_update_timestamp (store w') = Some now
           \<and> is_playing (store w') = is_playing (store w)
           \<and> video_file_url (store w') = video_file_url (store w)
           \<and> controller_sid (store w') = controller_sid (store w)
           \<and> playing (store w') = playing (store w)"
  using assms
  by (simp add: handle_seek_def is_controller_iff seek_write_up get_or_def playing_def)

text \<open>The controller U1 seeks to 42 at instant 50 while the video plays.\<close>

theorem controller_seek_frame_witness:
  "up (loaded\<lparr>store := (store loaded)\<lparr>is_playing := Some ''1''\<rparr>\<rparr>)
   \<and> controller_sid (store (loaded\<lparr>store := (store loaded)\<lparr>is_playing := Some ''1''\<rparr>\<rparr>))
       = Some ''U1''
   \<and> [''time'' \<mapsto> 42::real] ''time'' = Some 42
   \<and> handle_seek (loaded\<lparr>store := (store loaded)\<lparr>is_playing := Some ''1''\<rparr>\<rparr>) ''U1''
         [''time'' \<mapsto> 42] 50 =
       Inr (loaded\<lparr>store := (store loaded)\<lparr>is_playing := Some ''1'', current_time := Some 42,
                      last_update_timestamp := Some 50\<rparr>,
                   channel := [(''sync_seek'', [(''time'', JNum 42), (''sid'', JStr ''U1'')])]\<rparr>)"
proof -
  let ?w = "loaded\<lparr>store := (store loaded)\<lparr>is_playing := Some ''1''\<rparr>\<rparr>"
  have u: "up ?w" and c: "controller_sid (store ?w) = Some ''U1''"
    by (simp_all add: loaded_def)
  have d: "[''time'' \<mapsto> 42::real] ''time'' = Some 42" by simp
  from controller_seek_frame [of ?w "''U1''" "[''time'' \<mapsto> 42]" 42 50] u c d
  obtain w' where "handle_seek ?w ''U1'' [''time'' \<mapsto> 42] 50 = Inr w'"
    by blast
  moreover have "handle_seek ?w ''U1'' [''time'' \<mapsto> 42] 50 =
       Inr (loaded\<lparr>store := (store loaded)\<lparr>is_playing := Some ''1'', current_time := Some 42,
                      last_update_timestamp := Some 50\<rparr>,
                   channel := [(''sync_seek'', [(''time'', JNum 42), (''sid'', JStr ''U1'')])]\<rparr>)"
    by (simp add: handle_seek_def is_controller_def hget_controller_sid_def loaded_def
        seek_write_def execute_def publish_def get_or_def)
  ultimately show ?thesis using u c d by simp
qed

text \<open>
  C9, as stated, fails: every seek writes the clock value it reads, so a second
  \<open>seek(5)\<close> one second after the first changes \<^verbatim>\<open>last_update_timestamp\<close> from 100 to
  101, and the state after two applications is not the state after the first.
\<close>

theorem repeated_seek_counterexample:
  "handle_seek loaded ''U1'' [''time'' \<mapsto> 5] 100 =
     Inr (loaded\<lparr>store := (store loaded)\<lparr>current_time := Some 5,
                     last_update_timestamp := Some 100\<rparr>,
            channel := [(''sync_seek'', [(''time'', JNum 5), (''sid'', JStr ''U1'')])]\<rparr>)
   \<and> handle_seek
        (loaded\<lparr>store := (store loaded)\<lparr>current_time := Some 5,
                    last_update_timestamp := Some 100\<rparr>,
           channel := [(''sync_seek'', [(''time'', JNum 5), (''sid'', JStr ''U1'')])]\<rparr>)
        ''U1'' [''time'' \<mapsto> 5] 101 =
     Inr (loaded\<lparr>store := (store loaded)\<lparr>current_time := Some 5,
                     last_update_timestamp := Some 101\<rparr>,
            channel := [(''sync_seek'', [(''time'', JNum 5), (''sid'', JStr ''U1'')]),
                        (''sync_seek'', [(''time'', JNum 5), (''sid'', JStr ''U1'')])]\<rparr>)
   \<and> (store loaded)\<lparr>current_time := Some 5, last_update_timestamp := Some 101\<rparr> \<noteq>
     (store loaded)\<lparr>current_time := Some 5, last_update_timestamp := Some 100\<rparr>"
  by (simp add: handle_seek_def is_controller_def hget_controller_sid_def loaded_def
        seek_write_def execute_def publish_def get_or_def)

text \<open>
  C9, amended: applying \<open>seek(t)\<close> twice in succession from the current controller, at
  the instants \<open>now1\<close> and \<open>now2\<close>, yields the same playback state as applying it once
  at \<open>now2\<close>; relative to the state after the first application, the second changes no
  field other than \<^verbatim>\<open>last_update_timestamp\<close>, which becomes \<open>now2\<close>.
\<close>

theorem repeated_seek:
  assumes "up w" and "controller_sid (store w) = Some sid"
  shows "\<exists>w1 w2 w'. handle_seek w sid data now1 = Inr w1
           \<and> handle_seek w1 sid data now2 = Inr w2
           \<and> handle_seek w sid data now2 = Inr w'
           \<and> store w2 = (store w1)\<lparr>last_update_timestamp := Some now2\<rparr>
           \<and> store w2 = store w'"
  using assms
  by (simp add: handle_seek_def is_controller_iff seek_write_up)

theorem repeated_seek_witness:
  "up loaded \<and> controller_sid (store loaded) = Some ''U1''
   \<and> (\<exists>w1 w2 w'. handle_seek loaded ''U1'' [''time'' \<mapsto> 5] 100 = Inr w1
           \<and> handle_seek w1 ''U1'' [''time'' \<mapsto> 5] 101 = Inr w2
           \<and> handle_seek loaded ''U1'' [''time'' \<mapsto> 5] 101 = Inr w'
           \<and> store w2 = (store w1)\<lparr>last_update_timestamp := Some 101\<rparr>
           \<and> store w2 = store w')"
proof -
  have u: "up loaded" and c: "controller_sid (store loaded) = Some ''U1''"
    by (simp_all add: loaded_def)
  from repeated_seek [OF u c, of "[''time'' \<mapsto> 5]" 100 101] u c show ?thesis by simp
qed

text \<open>
  C10: a play, pause or seek command from the current controller whose payload has no
  \<^verbatim>\<open>time\<close> entry (the empty payload included) is not rejected. It is applied with
  time 0: \<^verbatim>\<open>current_time\<close> becomes 0, \<^verbatim>\<open>is_playing\<close> is switched by play and pause
  as usual, and the event is published with time 0.
\<close>

theorem missing_time_defaults_to_zero:
  assumes "up w" and "controller_sid (store w) = Some sid" and "data ''time'' = None"
  shows "handle_play w sid data now =
           Inr (w\<lparr>store := (store w)\<lparr>is_playing := Some ''1'', current_time := Some 0,
                    last_update_timestamp := Some now\<rparr>,
                  channel := channel w @
                    [(''sync_play'', [(''time'', JNum 0), (''sid'', JStr sid)])]\<rparr>)
       \<and> handle_pause w sid data now =
           Inr (w\<lparr>store := (store w)\<lparr>is_playing := Some ''0'', current_time := Some 0,
                    last_update_timestamp := Some now\<rparr>,
                  channel := channel w @
                    [(''sync_pause'', [(''time'', JNum 0), (''sid'', JStr sid)])]\<rparr>)
       \<and> handle_seek w sid data now =
           Inr (w\<lparr>store := (store w)\<lparr>current_time := Some 0,
                    last_update_timestamp := Some now\<rparr>,
                  channel := channel w @
                    [(''sync_seek'', [(''time'', JNum 0), (''sid'', JStr sid)])]\<rparr>)"
  using assms
  by (simp add: handle_play_def handle_pause_def handle_seek_def is_controller_iff
      play_write_up pause_write_up seek_write_up get_or_def)

text \<open>The controller U1 sends each command with the empty payload at instant 60.\<close>

theorem missing_time_defaults_to_zero_witness:
  "up loaded \<and> controller_sid (store loaded) = Some ''U1''
   \<and> (Map.empty :: payload) ''time'' = None
   \<and> handle_play loaded ''U1'' Map.empty 60 =
           Inr (loaded\<lparr>store := (store loaded)\<lparr>is_playing := Some ''1'', current_time := Some 0,
                    last_update_timestamp := Some 60\<rparr>,
                  channel := [(''sync_play'', [(''time'', JNum 0), (''sid'', JStr ''U1'')])]\<rparr>)
   \<and> handle_pause loaded ''U1'' Map.empty 60 =
           Inr (loaded\<lparr>store := (store loaded)\<lparr>is_playing := Some ''0'', current_time := Some 0,
                    last_update_timestamp := Some 60\<rparr>,
                  channel := [(''sync_pause'', [(''time'', JNum 0), (''sid'', JStr ''U1'')])]\<rparr>)
   \<and> handle_seek loaded ''U1'' Map.empty 60 =
           Inr (loaded\<lparr>store := (store loaded)\<lparr>current_time := Some 0,
                    last_update_timestamp := Some 60\<rparr>,
                  channel := [(''sync_seek'', [(''time'', JNum 0), (''sid'', JStr ''U1'')])]\<rparr>)"
proof -
  have u: "up loaded" and c: "controller_sid (store loaded) = Some ''U1''"
    and e: "channel loaded = []"
    by (simp_all add: loaded_def)
  from missing_time_defaults_to_zero [of loaded "''U1''" Map.empty 60] u c
  show ?thesis by (simp add: e)
qed

section \<open>Upload\<close>

text \<open>
  C4: whenever the upload route answers 204, the request carried a file name and an
  issuer, the resulting hash is exactly \<^verbatim>\<open>video_file_url\<close> = the file's URL,
  \<^verbatim>\<open>is_playing\<close> = \<^verbatim>\<open>"0"\<close>, \<^verbatim>\<open>current_time\<close> = 0, \<^verbatim>\<open>last_update_timestamp\<close> =
  \<open>now\<close>, \<^verbatim>\<open>controller_sid\<close> = issuer, whatever it held before, and exactly two events
  have been appended to the channel: \<^verbatim>\<open>video_loaded\<close> with the URL and the issuer, then
  \<^verbatim>\<open>controller_change\<close> with the issuer.
\<close>

theorem upload_resets_state_and_publishes:
  assumes "upload_video url_of w req now = (w', NoContent)"
  shows "\<exists>filename issuer.
           file_part req = Some filename \<and> form_sid req = Some issuer
         \<and> store w' = \<lparr>video_file_url = Some (url_of filename), is_playing = Some ''0'',
               current_time = Some 0, last_update_timestamp = Some now,
               controller_sid = Some issuer\<rparr>
         \<and> channel w' = channel w @
               [(''video_loaded'', [(''url'', JStr (url_of filename)), (''sid'', JStr issuer)]),
                (''controller_change'', [(''controller_sid'', JStr issuer)])]
         \<and> users w' = users w \<and> emitted w' = emitted w"
proof -
  obtain filename where f: "file_part req = Some filename"
    using assms by (cases "file_part req") (simp_all add: upload_video_def)
  obtain issuer where i: "form_sid req = Some issuer"
    using assms f
    by (cases "form_sid req")
      (simp_all add: upload_video_def truthy_def Let_def split: if_splits)
  have u: "up w"
    using assms f i
    by (auto simp: upload_video_def truthy_def Let_def execute_def split: if_splits)
  have "w' = w\<lparr>store := \<lparr>video_file_url = Some (url_of filename), is_playing = Some ''0'',
               current_time = Some 0, last_update_timestamp = Some now,
               controller_sid = Some issuer\<rparr>,
            channel := channel w @
               [(''video_loaded'', [(''url'', JStr (url_of filename)), (''sid'', JStr issuer)]),
                (''controller_change'', [(''controller_sid'', JStr issuer)])]\<rparr>"
    using assms f i u
    by (auto simp: upload_video_def truthy_def Let_def execute_def publish_def get_or_def
        split: if_splits)
  then show ?thesis using f i by simp
qed

text \<open>U2 uploads \<^verbatim>\<open>b.mp4\<close> at instant 30 while U1's video plays at position 7.\<close>

theorem upload_resets_state_and_publishes_witness:
  "snd (upload_video static_url
      (loaded\<lparr>store := (store loaded)\<lparr>is_playing := Some ''1'', current_time := Some 7\<rparr>\<rparr>)
      \<lparr>file_part = Some ''b.mp4'', form_sid = Some ''U2''\<rparr> 30) = NoContent
   \<and> store (fst (upload_video static_url
      (loaded\<lparr>store := (store loaded)\<lparr>is_playing := Some ''1'', current_time := Some 7\<rparr>\<rparr>)
      \<lparr>file_part = Some ''b.mp4'', form_sid = Some ''U2''\<rparr> 30)) =
     \<lparr>video_file_url = Some ''/static/videos/b.mp4'', is_playing = Some ''0'',
        current_time = Some 0, last_update_timestamp = Some 30, controller_sid = Some ''U2''\<rparr>
   \<and> channel (fst (upload_video static_url
      (loaded\<lparr>store := (store loaded)\<lparr>is_playing := Some ''1'', current_time := Some 7\<rparr>\<rparr>)
      \<lparr>file_part = Some ''b.mp4'', form_sid = Some ''U2''\<rparr> 30)) =
     [(''video_loaded'', [(''url'', JStr ''/static/videos/b.mp4''), (''sid'', JStr ''U2'')]),
      (''controller_change'', [(''controller_sid'', JStr ''U2'')])]"
proof -
  let ?w = "loaded\<lparr>store := (store loaded)\<lparr>is_playing := Some ''1'', current_time := Some 7\<rparr>\<rparr>"
  let ?req = "\<lparr>file_part = Some ''b.mp4'', form_sid = Some ''U2''\<rparr>"
  have ok: "snd (upload_video static_url ?w ?req 30) = NoContent"
    by (simp add: upload_video_def loaded_def static_url_def allowed_file_def
        after_last_dot_def lower_char_def ALLOWED_EXTENSIONS_def truthy_def get_or_def
        execute_def publish_def Let_def)
  then have h: "upload_video static_url ?w ?req 30 =
      (fst (upload_video static_url ?w ?req 30), NoContent)"
    by (simp add: prod_eq_iff)
  have c: "channel ?w = []" by (simp add: loaded_def)
  from upload_resets_state_and_publishes [OF h] ok c show ?thesis
    by (auto simp: static_url_def)
qed

section \<open>Election after the controller disconnects\<close>

text \<open>
  C5: when the session stored as \<^verbatim>\<open>controller_sid\<close> disconnects, it is removed from
  the set of sessions, and the election that follows writes one value \<open>c\<close> to
  \<^verbatim>\<open>controller_sid\<close>: the empty string when no session remains, otherwise a member of
  the set as it stands after the removal. One \<^verbatim>\<open>controller_change\<close> event carrying \<open>c\<close>
  is published.
\<close>

theorem controller_disconnect_elects_member:
  assumes "up w" and "controller_sid (store w) = Some sid"
  shows "\<exists>c. store (handle_disconnect w sid rnd) = (store w)\<lparr>controller_sid := Some c\<rparr>
           \<and> users (handle_disconnect w sid rnd) = removeAll sid (users w)
           \<and> (if users (handle_disconnect w sid rnd) = [] then c = []
               else c \<in> set (users (handle_disconnect w sid rnd)))
           \<and> channel (handle_disconnect w sid rnd) =
               channel w @ [(''controller_change'', [(''controller_sid'', JStr c)])]"
proof -
  let ?w1 = "w\<lparr>users := removeAll sid (users w)\<rparr>"
  have c1: "is_controller ?w1 sid"
    using assms by (simp add: is_controller_iff)
  have hd: "handle_disconnect w sid rnd = fst (elect_new_controller ?w1 rnd)"
    using assms(1) c1 by (simp add: handle_disconnect_def srem_def)
  have u1: "up ?w1" using assms(1) by simp
  from elect_written [OF u1, of rnd] obtain c where
    e: "fst (elect_new_controller ?w1 rnd) =
            ?w1\<lparr>store := (store ?w1)\<lparr>controller_sid := Some c\<rparr>,
              channel := channel ?w1 @
                [(''controller_change'', [(''controller_sid'', JStr c)])]\<rparr>"
    and m: "if users ?w1 = [] then c = [] else c \<in> set (users ?w1)"
    by blast
  from m have m': "if removeAll sid (users w) = [] then c = []
      else c \<in> set (removeAll sid (users w))"
    by (simp split: if_splits)
  have s: "store (handle_disconnect w sid rnd) = (store w)\<lparr>controller_sid := Some c\<rparr>"
    and us: "users (handle_disconnect w sid rnd) = removeAll sid (users w)"
    and ch: "channel (handle_disconnect w sid rnd) =
               channel w @ [(''controller_change'', [(''controller_sid'', JStr c)])]"
    by (simp_all add: hd e)
  show ?thesis
    using m' s ch unfolding us by blast
qed

text \<open>The controller U1 disconnects while U2 and U3 remain; the draw selects U3.\<close>

theorem controller_disconnect_elects_member_witness:
  "up loaded \<and> controller_sid (store loaded) = Some ''U1''
   \<and> store (handle_disconnect loaded ''U1'' 1) = (store loaded)\<lparr>controller_sid := Some ''U3''\<rparr>
   \<and> users (handle_disconnect loaded ''U1'' 1) = [''U2'', ''U3'']
   \<and> channel (handle_disconnect loaded ''U1'' 1) =
       [(''controller_change'', [(''controller_sid'', JStr ''U3'')])]"
proof -
  have h: "up loaded" and c: "controller_sid (store loaded) = Some ''U1''"
    by (simp_all add: loaded_def)
  have u: "users (handle_disconnect loaded ''U1'' 1) = [''U2'', ''U3'']"
    using controller_disconnect_elects_member [OF h c, of 1] by (auto simp: loaded_def)
  have e: "store (handle_disconnect loaded ''U1'' 1) =
        (store loaded)\<lparr>controller_sid := Some ''U3''\<rparr>
     \<and> channel (handle_disconnect loaded ''U1'' 1) =
        [(''controller_change'', [(''controller_sid'', JStr ''U3'')])]"
    by (simp add: handle_disconnect_def srem_def loaded_def is_controller_def
        hget_controller_sid_def elect_new_controller_def srandmember_def truthy_def
        write_controller_def execute_def publish_def get_or_def)
  show ?thesis using h c u e by simp
qed

section \<open>The stored position over a run of requests\<close>

lemma base_time_upload:
  "0 \<le> base_time (store w) \<Longrightarrow>
   0 \<le> base_time (store (fst (upload_video url_of w req now)))"
  by (simp add: upload_video_def execute_def publish_def Let_def base_time_def get_or_def
      split: option.splits)

lemma base_time_connect:
  "base_time (store (handle_connect w sid now)) = base_time (store w)"
  by (simp add: handle_connect_def sadd_def emit_sync_state_def)

lemma base_time_elect:
  "base_time (store (fst (elect_new_controller w rnd))) = base_time (store w)"
proof (cases "up w")
  case True
  from elect_written [OF True, of rnd] show ?thesis by (auto simp: base_time_def)
next
  case False
  then show ?thesis by (simp add: elect_new_controller_def srandmember_def)
qed

lemma base_time_disconnect:
  "base_time (store (handle_disconnect w sid rnd)) = base_time (store w)"
  by (simp add: handle_disconnect_def srem_def base_time_elect)

lemma base_time_request_sync:
  "base_time (store (handle_request_sync w sid now)) = base_time (store w)"
  by (simp add: handle_request_sync_def emit_sync_state_def)

lemma base_time_play:
  "0 \<le> base_time (store w) \<Longrightarrow> 0 \<le> get_or (data ''time'') 0 \<Longrightarrow>
   0 \<le> base_time (store (returned w (handle_play w sid data now)))"
  by (simp add: handle_play_def is_controller_iff play_write_up returned_def base_time_def
      get_or_def)

lemma base_time_pause:
  "0 \<le> base_time (store w) \<Longrightarrow> 0 \<le> get_or (data ''time'') 0 \<Longrightarrow>
   0 \<le> base_time (store (returned w (handle_pause w sid data now)))"
  by (simp add: handle_pause_def is_controller_iff pause_write_up returned_def base_time_def
      get_or_def)

lemma base_time_seek:
  "0 \<le> base_time (store w) \<Longrightarrow> 0 \<le> get_or (data ''time'') 0 \<Longrightarrow>
   0 \<le> base_time (store (returned w (handle_seek w sid data now)))"
  by (simp add: handle_seek_def is_controller_iff seek_write_up returned_def base_time_def
      get_or_def)

lemma base_time_serve:
  "0 \<le> base_time (store w) \<Longrightarrow> time_not_negative req \<Longrightarrow>
   0 \<le> base_time (store (serve url_of w req))"
  by (cases req)
    (simp_all add: base_time_upload base_time_connect base_time_disconnect
      base_time_request_sync base_time_play base_time_pause base_time_seek)

lemma base_time_run:
  "0 \<le> base_time (store w) \<Longrightarrow> list_all time_not_negative reqs \<Longrightarrow>
   0 \<le> base_time (store (run url_of w reqs))"
  unfolding run_def
  by (induction reqs arbitrary: w) (simp_all add: base_time_serve)

text \<open>
  C7, as stated, fails: the handlers store the time of a controller's command as it is
  given. From the initial state, U1 uploads a video, connects and seeks to -5: the
  stored position is -5.
\<close>

theorem base_time_counterexample:
  "current_time (store (run static_url (initialize_redis_state fresh)
      [Upload \<lparr>file_part = Some ''a.mp4'', form_sid = Some ''U1''\<rparr> 10,
       Connect ''U1'' 11,
       Seek ''U1'' [''time'' \<mapsto> - 5] 20])) = Some (- 5)
   \<and> base_time (store (run static_url (initialize_redis_state fresh)
      [Upload \<lparr>file_part = Some ''a.mp4'', form_sid = Some ''U1''\<rparr> 10,
       Connect ''U1'' 11,
       Seek ''U1'' [''time'' \<mapsto> - 5] 20])) < 0"
  by (simp add: run_def initialize_redis_state_def fresh_def default_hash_def
      upload_video_def allowed_file_def after_last_dot_def lower_char_def
      ALLOWED_EXTENSIONS_def truthy_def get_or_def execute_def publish_def Let_def
      handle_connect_def sadd_def emit_sync_state_def
      handle_seek_def is_controller_def hget_controller_sid_def seek_write_def returned_def
      base_time_def static_url_def)

text \<open>
  C7, amended: the stored position is 0 in the initial state and at least 0 in every
  state reached from it by uploads, connects, disconnects (with their elections),
  snapshot requests and play, pause and seek commands whose time payload is not
  negative (an absent time counts as 0).
\<close>

theorem base_time_not_negative:
  assumes "up w0" and "list_all time_not_negative reqs"
  shows "base_time (store (initialize_redis_state w0)) = 0
       \<and> 0 \<le> base_time (store (run url_of (initialize_redis_state w0) reqs))"
proof -
  have i: "base_time (store (initialize_redis_state w0)) = 0"
    using assms(1)
    by (simp add: initialize_redis_state_def default_hash_def base_time_def get_or_def)
  then have "0 \<le> base_time (store (initialize_redis_state w0))" by simp
  from base_time_run [OF this assms(2)] i show ?thesis by simp
qed

theorem base_time_not_negative_witness:
  "up fresh
   \<and> list_all time_not_negative
       [Upload \<lparr>file_part = Some ''a.mp4'', form_sid = Some ''U1''\<rparr> 10,
        Connect ''U2'' 11,
        Play ''U1'' [''time'' \<mapsto> 12.5] 100,
        Seek ''U1'' [''time'' \<mapsto> 30] 103,
        Pause ''U1'' Map.empty 104,
        Disconnect ''U1'' 0]
   \<and> base_time (store (initialize_redis_state fresh)) = 0
   \<and> 0 \<le> base_time (store (run static_url (initialize_redis_state fresh)
       [Upload \<lparr>file_part = Some ''a.mp4'', form_sid = Some ''U1''\<rparr> 10,
        Connect ''U2'' 11,
        Play ''U1'' [''time'' \<mapsto> 12.5] 100,
        Seek ''U1'' [''time'' \<mapsto> 30] 103,
        Pause ''U1'' Map.empty 104,
        Disconnect ''U1'' 0]))"
proof -
  have u: "up fresh" by (simp add: fresh_def)
  have l: "list_all time_not_negative
       [Upload \<lparr>file_part = Some ''a.mp4'', form_sid = Some ''U1''\<rparr> 10,
        Connect ''U2'' 11,
        Play ''U1'' [''time'' \<mapsto> 12.5] 100,
        Seek ''U1'' [''time'' \<mapsto> 30] 103,
        Pause ''U1'' Map.empty 104,
        Disconnect ''U1'' 0]"
    by (simp add: get_or_def)
  from base_time_not_negative [OF u l, of static_url] u l show ?thesis by simp
qed

section \<open>The controller check and the write\<close>

text \<open>
  C3, as stated, fails: nothing ties the check to the write. U1 is the controller when
  its play command is checked; before the pipeline of that command is executed, Redis
  serves U2's upload, which makes U2 the controller; U1's write then lands all the same,
  on a state whose controller is U2.
\<close>

theorem check_then_write_counterexample:
  "is_controller loaded ''U1''
   \<and> \<not> is_controller
        (fst (upload_video static_url loaded
                \<lparr>file_part = Some ''b.mp4'', form_sid = Some ''U2''\<rparr> 30))
        ''U1''
   \<and> interleaved
        (\<lambda>w. fst (upload_video static_url w
                \<lparr>file_part = Some ''b.mp4'', form_sid = Some ''U2''\<rparr> 30))
        loaded ''U1'' (\<lambda>w. play_write w ''U1'' [''time'' \<mapsto> 7] 31) =
      Inr \<lparr>up = True,
           store = \<lparr>video_file_url = Some ''/static/videos/b.mp4'', is_playing = Some ''1'',
             current_time = Some 7, last_update_timestamp = Some 31,
             controller_sid = Some ''U2''\<rparr>,
           users = [''U1'', ''U2'', ''U3''],
           channel =
             [(''video_loaded'',
                 [(''url'', JStr ''/static/videos/b.mp4''), (''sid'', JStr ''U2'')]),
              (''controller_change'', [(''controller_sid'', JStr ''U2'')]),
              (''sync_play'', [(''time'', JNum 7), (''sid'', JStr ''U1'')])],
           emitted = []\<rparr>"
  by (simp add: interleaved_def is_controller_def hget_controller_sid_def loaded_def
      upload_video_def allowed_file_def after_last_dot_def lower_char_def
      ALLOWED_EXTENSIONS_def truthy_def get_or_def execute_def publish_def Let_def
      play_write_def static_url_def)

text \<open>
  C3, amended: for every play, pause or seek command, the check of the issuer against
  \<^verbatim>\<open>controller_sid\<close> is one read of the store and the write is a separate transaction.
  The fields of one command are written together; the write is performed exactly when
  the issuer was the controller at the time of the check, and it is applied to the store
  as it stands at the time of the write, without a second check. With nothing served in
  between (\<open>other = id\<close>) this is the handler itself, and then a write lands only while
  the issuer is the controller.
\<close>

theorem check_then_write:
  "handle_play w sid data now = interleaved id w sid (\<lambda>v. play_write v sid data now)
   \<and> handle_pause w sid data now = interleaved id w sid (\<lambda>v. pause_write v sid data now)
   \<and> handle_seek w sid data now = interleaved id w sid (\<lambda>v. seek_write v sid data now)
   \<and> interleaved other w sid (\<lambda>v. play_write v sid data now) =
       (if \<not> is_controller w sid then Inr (other w)
        else if up (other w)
        then Inr ((other w)\<lparr>store := (store (other w))\<lparr>is_playing := Some ''1'',
                       current_time := Some (get_or (data ''time'') 0),
                       last_update_timestamp := Some now\<rparr>,
                     channel := channel (other w) @
                       [(''sync_play'', [(''time'', JNum (get_or (data ''time'') 0)),
                                         (''sid'', JStr sid)])]\<rparr>)
        else Inl RedisError)
   \<and> interleaved other w sid (\<lambda>v. pause_write v sid data now) =
       (if \<not> is_controller w sid then Inr (other w)
        else if up (other w)
        then Inr ((other w)\<lparr>store := (store (other w))\<lparr>is_playing := Some ''0'',
                       current_time := Some (get_or (data ''time'') 0),
                       last_update_timestamp := Some now\<rparr>,
                     channel := channel (other w) @
                       [(''sync_pause'', [(''time'', JNum (get_or (data ''time'') 0)),
                                          (''sid'', JStr sid)])]\<rparr>)
        else Inl RedisError)
   \<and> interleaved other w sid (\<lambda>v. seek_write v sid data now) =
       (if \<not> is_controller w sid then Inr (other w)
        else if up (other w)
        then Inr ((other w)\<lparr>store := (store (other w))\<lparr>
                       current_time := Some (get_or (data ''time'') 0),
                       last_update_timestamp := Some now\<rparr>,
                     channel := channel (other w) @
                       [(''sync_seek'', [(''time'', JNum (get_or (data ''time'') 0)),
                                         (''sid'', JStr sid)])]\<rparr>)
        else Inl RedisError)"
  by (simp add: handle_play_def handle_pause_def handle_seek_def interleaved_def
      play_write_up pause_write_up seek_write_up
      play_write_down pause_write_down seek_write_down)

text \<open>
  U3 disconnects between the check and the write of a pause by the controller U1; the
  same pause from U2 writes nothing.
\<close>

theorem check_then_write_witness:
  "interleaved (\<lambda>w. handle_disconnect w ''U3'' 0) loaded ''U1''
       (\<lambda>v. pause_write v ''U1'' [''time'' \<mapsto> 9] 70) =
     Inr (loaded\<lparr>store := (store loaded)\<lparr>is_playing := Some ''0'', current_time := Some 9,
                     last_update_timestamp := Some 70\<rparr>,
            users := [''U1'', ''U2''],
            channel := [(''sync_pause'', [(''time'', JNum 9), (''sid'', JStr ''U1'')])]\<rparr>)
   \<and> interleaved (\<lambda>w. handle_disconnect w ''U3'' 0) loaded ''U2''
       (\<lambda>v. pause_write v ''U2'' [''time'' \<mapsto> 9] 70) =
     Inr (loaded\<lparr>users := [''U1'', ''U2'']\<rparr>)"
proof -
  have d: "handle_disconnect loaded ''U3'' 0 = loaded\<lparr>users := [''U1'', ''U2'']\<rparr>"
    by (simp add: handle_disconnect_def srem_def loaded_def is_controller_def
        hget_controller_sid_def)
  have c1: "is_controller loaded ''U1''" and c2: "\<not> is_controller loaded ''U2''"
    by (simp_all add: is_controller_def hget_controller_sid_def loaded_def)
  have u: "up (loaded\<lparr>users := [''U1'', ''U2'']\<rparr>)"
    and e: "channel loaded = []"
    by (simp_all add: loaded_def)
  from check_then_write [where w = loaded and sid = "''U1''" and data = "[''time'' \<mapsto> 9]"
      and now = 70 and other = "\<lambda>w. handle_disconnect w ''U3'' 0"]
    check_then_write [where w = loaded and sid = "''U2''" and data = "[''time'' \<mapsto> 9]"
      and now = 70 and other = "\<lambda>w. handle_disconnect w ''U3'' 0"]
  show ?thesis
    by (simp add: d c1 c2 u e get_or_def)
qed

end
